theory Spec2Isabelle
  imports Complex_Main "HOL-Library.Log_Nat"
begin

section \<open>Data model of \<open>type_speech/engine.py\<close>\<close>

text \<open>
  The engine is one class, \<open>SpeechToText\<close>, whose methods mutate the object, two queues,
  the clipboard, the keyboard and the log. The model passes the object explicitly and
  records every outside effect, in order, in the field \<open>effects\<close>.

  Conventions of the model:
  \<^item> a Python \<open>float\<close> is the rational number it denotes (NaN and the infinities are not
    values of the model), and \<open>binary64 q\<close> is the float nearest to the rational \<open>q\<close>;
  \<^item> a Python \<open>str\<close> is a \<open>string\<close>; the two string builtins the engine calls whose
    result depends on the Unicode tables, \<open>str.lower\<close> and \<open>str.strip\<close>, are arguments
    \<open>lower\<close> and \<open>strip\<close> of the functions that call them, so every theorem holds for
    whatever these builtins compute. \<open>ascii_lower\<close> and \<open>ascii_strip\<close> are what they
    compute on ASCII text;
  \<^item> an exception is the text \<open>str(e)\<close> of an instance of \<open>Exception\<close>: the handlers of
    the engine look at nothing else;
  \<^item> a \<open>queue.Queue\<close> is the list of its items, oldest first; the sentinel \<open>None\<close> that
    the engine puts on its queues is \<open>None\<close>, every other item is \<open>Some\<close>;
  \<^item> \<open>recording_lock\<close> is the history of the lock: every acquisition, every release and
    every write of one of the two flags that the lock guards, in order;
  \<^item> \<open>time.sleep\<close> leaves no trace, and each method is run on its own, from entry to
    return.
\<close>

type_synonym bytes = string

section \<open>Floats\<close>

text \<open>Rounding to the nearest integer, ties to the even one.\<close>

definition round_half_even :: "rat \<Rightarrow> int" where
  "round_half_even x =
     (let f = \<lfloor>x\<rfloor>; d = x - of_int f
      in if d < 1 / 2 then f else if 1 / 2 < d then f + 1 else if even f then f else f + 1)"

definition pow2 :: "int \<Rightarrow> rat" where
  "pow2 n = (if 0 \<le> n then 2 ^ nat n else 1 / 2 ^ nat (- n))"

text \<open>For \<open>q > 0\<close>, the integer \<open>n\<close> with \<open>2 ^ n \<le> q < 2 ^ (n + 1)\<close>.\<close>

definition floor_log2 :: "rat \<Rightarrow> int" where
  "floor_log2 q =
     (let (a, b) = quotient_of q; n = bitlen a - bitlen b
      in if pow2 n \<le> q then n else n - 1)"

text \<open>
  The float (IEEE 754 binary64) nearest to a rational number, ties to the even significand:
  a significand of 53 bits, and below \<open>2 ^ - 1022\<close> the fixed step \<open>2 ^ - 1074\<close> of the
  subnormal numbers. The exponent is not bounded above: a rational beyond the largest float,
  which \<open>round(x, 2)\<close> never reaches from a float \<open>x\<close>, is rounded as if the floats went
  on.
\<close>

definition binary64 :: "rat \<Rightarrow> rat" where
  "binary64 q =
     (if q = 0 then 0
      else let e = max (floor_log2 \<bar>q\<bar>) (- 1022) - 52
           in of_int (round_half_even (q / pow2 e)) * pow2 e)"

text \<open>
  \<open>round(x, ndigits)\<close> on a float: CPython rounds the exact value of \<open>x\<close> to \<open>ndigits\<close>
  decimals, ties to the even neighbour, and returns the float nearest to that decimal
  number.
\<close>

definition py_round :: "rat \<Rightarrow> nat \<Rightarrow> rat" where
  "py_round x ndigits = binary64 (of_int (round_half_even (x * 10 ^ ndigits)) / 10 ^ ndigits)"

section \<open>Phrases, configuration and the object\<close>

text \<open>\<open>@dataclass(frozen=True) class Phrase\<close>. The field \<open>text\<close> is \<open>phrase_text\<close> here.\<close>

record Phrase =
  phrase_text :: string
  accuracy :: rat
  is_final :: bool

text \<open>The parts of \<open>config.py\<close> that the engine reads.\<close>

record AudioConfig =
  rate :: int
  channels :: int
  dtype :: string
  chunk :: int

record SpeechConfig =
  accuracy_threshold :: rat

record CredentialsConfig =
  google_cloud_path :: string

record Config =
  audio :: AudioConfig
  speech :: SpeechConfig
  credentials :: CredentialsConfig

text \<open>What the backend delivers (\<open>google.cloud.speech\<close>): a response holds results, a
  result holds ranked alternatives. The fields \<open>is_final\<close> and \<open>results\<close> of the source are
  \<open>result_is_final\<close> and \<open>response_results\<close> here.\<close>

record SpeechRecognitionAlternative =
  transcript :: string
  confidence :: rat

record SpeechRecognitionResult =
  alternatives :: "SpeechRecognitionAlternative list"
  result_is_final :: bool
  stability :: rat

record StreamingRecognizeResponse =
  response_results :: "SpeechRecognitionResult list"

datatype StreamingRecognizeRequest = StreamingRecognizeRequest bytes

datatype level = Debug | Info | Warning | Error | Critical

datatype ctrl_key = Key_V | Key_Z

text \<open>The effects on the outside world, as calls of the libraries the engine uses.\<close>

datatype event =
    Log level string
  | Log_repr level Phrase
  | Keybd_event nat nat
  | Clipboard_copy string
  | InputStream_open int int string int
  | InputStream_start
  | InputStream_read int
  | InputStream_stop
  | InputStream_close

text \<open>What happens to \<open>recording_lock\<close> and to the two flags that it guards.\<close>

datatype lock_event =
    Acquire
  | Release
  | Write_is_recording bool
  | Write_is_transcribing bool

record SpeechToText =
  audio_queue :: "bytes option list"
  transcription_text_queue :: "Phrase option list"
  recording_lock :: "lock_event list"
  audio_stream :: "AudioConfig option"
  is_recording :: bool
  is_transcribing :: bool
  interim_phrase :: "Phrase option"
  effects :: "event list"

text \<open>\<open>SpeechToText.__init__\<close>\<close>

definition init :: SpeechToText where
  "init = \<lparr>audio_queue = [], transcription_text_queue = [], recording_lock = [],
     audio_stream = None,
     is_recording = False, is_transcribing = False, interim_phrase = None, effects = []\<rparr>"

section \<open>The lock and the flags\<close>

text \<open>Entering and leaving \<open>with self.recording_lock\<close>.\<close>

definition acquire :: "SpeechToText \<Rightarrow> SpeechToText" where
  "acquire s = s\<lparr>recording_lock := recording_lock s @ [Acquire]\<rparr>"

definition release :: "SpeechToText \<Rightarrow> SpeechToText" where
  "release s = s\<lparr>recording_lock := recording_lock s @ [Release]\<rparr>"

text \<open>\<open>self.is_recording = b\<close> and \<open>self.is_transcribing = b\<close>\<close>

definition set_is_recording :: "bool \<Rightarrow> SpeechToText \<Rightarrow> SpeechToText" where
  "set_is_recording b s =
     s\<lparr>is_recording := b, recording_lock := recording_lock s @ [Write_is_recording b]\<rparr>"

definition set_is_transcribing :: "bool \<Rightarrow> SpeechToText \<Rightarrow> SpeechToText" where
  "set_is_transcribing b s =
     s\<lparr>is_transcribing := b, recording_lock := recording_lock s @ [Write_is_transcribing b]\<rparr>"

section \<open>Logging, clipboard and keyboard\<close>

definition emit :: "event \<Rightarrow> SpeechToText \<Rightarrow> SpeechToText" where
  "emit e s = s\<lparr>effects := effects s @ [e]\<rparr>"

definition logger :: "level \<Rightarrow> string \<Rightarrow> SpeechToText \<Rightarrow> SpeechToText" where
  "logger lv msg s = emit (Log lv msg) s"

definition VK_CONTROL :: nat where
  "VK_CONTROL = 17"

definition KEYEVENTF_KEYUP :: nat where
  "KEYEVENTF_KEYUP = 2"

fun ord_key :: "ctrl_key \<Rightarrow> nat" where
  "ord_key Key_V = 86"
| "ord_key Key_Z = 90"

fun key_name :: "ctrl_key \<Rightarrow> string" where
  "key_name Key_V = ''V''"
| "key_name Key_Z = ''Z''"

text \<open>\<open>press_ctrl_plus\<close>: control down, key down, key up, control up, one debug record.\<close>

definition press_ctrl_plus :: "ctrl_key \<Rightarrow> SpeechToText \<Rightarrow> SpeechToText" where
  "press_ctrl_plus key s =
     logger Debug (''Pressed CTRL+'' @ key_name key)
       (emit (Keybd_event VK_CONTROL KEYEVENTF_KEYUP)
         (emit (Keybd_event (ord_key key) KEYEVENTF_KEYUP)
           (emit (Keybd_event (ord_key key) 0)
             (emit (Keybd_event VK_CONTROL 0) s))))"

definition pyperclip_copy :: "string \<Rightarrow> SpeechToText \<Rightarrow> SpeechToText" where
  "pyperclip_copy t s = emit (Clipboard_copy t) s"

section \<open>\<open>SpeechToText.type_text\<close>\<close>

definition type_text ::
  "(string \<Rightarrow> string) \<Rightarrow> Config \<Rightarrow> SpeechToText \<Rightarrow> Phrase \<Rightarrow> SpeechToText" where
  "type_text lower cfg s phrase =
     (let s1 = emit (Log_repr Debug phrase) s in
      if (\<not> is_final phrase) \<and> accuracy phrase < accuracy_threshold (speech cfg)
      then logger Debug ''Low accuracy, skipping'' s1
      else
        let s2 = pyperclip_copy (phrase_text phrase @ '' '') s1;
            s3 = (case interim_phrase s2 of
                    None \<Rightarrow> press_ctrl_plus Key_V s2
                  | Some ip \<Rightarrow>
                      if lower (phrase_text ip) = lower (phrase_text phrase)
                      then logger Debug ''Interim phrase is the same, skipping'' s2
                      else press_ctrl_plus Key_V (press_ctrl_plus Key_Z s2))
        in if is_final phrase
           then logger Info (''FINAL: '' @ phrase_text phrase) (s3\<lparr>interim_phrase := None\<rparr>)
           else s3\<lparr>interim_phrase := Some phrase\<rparr>)"

text \<open>The keystrokes and clipboard writes among a list of effects: what the focused
  application and the clipboard see.\<close>

fun is_injection :: "event \<Rightarrow> bool" where
  "is_injection (Keybd_event vk flags) = True"
| "is_injection (Clipboard_copy t) = True"
| "is_injection e = False"

definition injections :: "event list \<Rightarrow> event list" where
  "injections es = filter is_injection es"

text \<open>The four keyboard events of one \<open>press_ctrl_plus\<close>.\<close>

definition ctrl_plus :: "ctrl_key \<Rightarrow> event list" where
  "ctrl_plus key =
     [Keybd_event VK_CONTROL 0, Keybd_event (ord_key key) 0,
      Keybd_event (ord_key key) KEYEVENTF_KEYUP, Keybd_event VK_CONTROL KEYEVENTF_KEYUP]"

definition paste :: "event list" where
  "paste = ctrl_plus Key_V"

definition undo :: "event list" where
  "undo = ctrl_plus Key_Z"

text \<open>The keystrokes alone.\<close>

fun is_keystroke :: "event \<Rightarrow> bool" where
  "is_keystroke (Keybd_event vk flags) = True"
| "is_keystroke e = False"

definition keystrokes :: "event list \<Rightarrow> event list" where
  "keystrokes es = filter is_keystroke es"

text \<open>\<open>Config()\<close> with the defaults of \<open>config.py\<close>; the threshold is the float \<open>0.7\<close>.\<close>

definition default_config :: Config where
  "default_config =
     \<lparr>audio = \<lparr>rate = 16000, channels = 1, dtype = ''int16'', chunk = 1600\<rparr>,
      speech = \<lparr>accuracy_threshold = binary64 (7 / 10)\<rparr>,
      credentials = \<lparr>google_cloud_path = ''credentials/google-credentials.json''\<rparr>\<rparr>"

text \<open>\<open>str.lower\<close> on ASCII text.\<close>

definition ascii_lower_char :: "char \<Rightarrow> char" where
  "ascii_lower_char c =
     (let n = (of_char c :: nat) in if 65 \<le> n \<and> n \<le> 90 then char_of (n + 32) else c)"

definition ascii_lower :: "string \<Rightarrow> string" where
  "ascii_lower t = map ascii_lower_char t"

text \<open>\<open>str.strip\<close> on ASCII text: the characters \<open>str.isspace\<close> accepts below 128 are
  9 to 13 and 28 to 32.\<close>

definition ascii_isspace :: "char \<Rightarrow> bool" where
  "ascii_isspace c = (let n = (of_char c :: nat) in (9 \<le> n \<and> n \<le> 13) \<or> (28 \<le> n \<and> n \<le> 32))"

definition ascii_strip :: "string \<Rightarrow> string" where
  "ascii_strip t = rev (dropWhile ascii_isspace (rev (dropWhile ascii_isspace t)))"

text \<open>\<open>SpeechToText._text_input_worker\<close>: take items from the phrase queue until the
  sentinel. \<open>get()\<close> on an empty queue waits; a worker that is still waiting when the
  queue given to it is used up has not returned, which is \<open>None\<close>.\<close>

fun text_input_loop ::
  "(string \<Rightarrow> string) \<Rightarrow> Config \<Rightarrow> SpeechToText \<Rightarrow> Phrase option list \<Rightarrow> SpeechToText option" where
  "text_input_loop lower cfg s [] = None"
| "text_input_loop lower cfg s (None # q) = Some (s\<lparr>transcription_text_queue := q\<rparr>)"
| "text_input_loop lower cfg s (Some item # q) =
     text_input_loop lower cfg (type_text lower cfg (s\<lparr>transcription_text_queue := q\<rparr>) item) q"

definition text_input_worker ::
  "(string \<Rightarrow> string) \<Rightarrow> Config \<Rightarrow> SpeechToText \<Rightarrow> SpeechToText option" where
  "text_input_worker lower cfg s = text_input_loop lower cfg s (transcription_text_queue s)"

section \<open>\<open>SpeechToText.stop_recording\<close> and \<open>SpeechToText.start_recording\<close>\<close>

definition put_audio :: "bytes option \<Rightarrow> SpeechToText \<Rightarrow> SpeechToText" where
  "put_audio item s = s\<lparr>audio_queue := audio_queue s @ [item]\<rparr>"

definition stop_recording :: "SpeechToText \<Rightarrow> SpeechToText" where
  "stop_recording s =
     (let s1 = acquire s
      in if \<not> is_recording s1
         then release (logger Debug ''Recording not in progress, ignoring stop request'' s1)
         else put_audio None
                (logger Info ''Stop recording signal sent''
                   (release (set_is_recording False s1))))"

text \<open>The property \<open>is_recording_active\<close>: the value it returns and the state it leaves.\<close>

definition is_recording_active :: "SpeechToText \<Rightarrow> bool \<times> SpeechToText" where
  "is_recording_active s = (is_recording (acquire s), release (acquire s))"

text \<open>
  What the microphone does during one call of \<open>start_recording\<close>: whether
  \<open>sd.InputStream(...)\<close> or its \<open>start()\<close> raise, and then, one step for each test of
  \<open>while self.is_recording\<close>, either what \<open>read\<close> does or a call of \<open>stop_recording\<close> made
  by another thread before that test. The loop ends only when the flag is cleared or a read
  raises; a call whose script is used up while the flag is still set has not returned,
  which is \<open>None\<close>.
\<close>

datatype capture_step =
    Frame bytes bool
  | Read_raises string
  | Stop_recording_called

record microphone =
  open_error :: "string option"
  start_error :: "string option"
  reads :: "capture_step list"

definition open_stream ::
  "Config \<Rightarrow> microphone \<Rightarrow> SpeechToText \<Rightarrow> SpeechToText \<times> string option" where
  "open_stream cfg mic s =
     (let s1 = emit (InputStream_open (rate (audio cfg)) (channels (audio cfg))
                       (dtype (audio cfg)) (chunk (audio cfg))) s
      in case open_error mic of
           Some e \<Rightarrow> (s1, Some e)
         | None \<Rightarrow>
             (let s2 = emit InputStream_start (s1\<lparr>audio_stream := Some (audio cfg)\<rparr>)
              in case start_error mic of
                   Some e \<Rightarrow> (s2, Some e)
                 | None \<Rightarrow> (logger Info ''Sounddevice stream opened for recording'' s2, None)))"

fun record_loop :: "Config \<Rightarrow> SpeechToText \<Rightarrow> capture_step list \<Rightarrow> SpeechToText option" where
  "record_loop cfg s [] = (if is_recording s then None else Some s)"
| "record_loop cfg s (step # script) =
     (if \<not> is_recording s then Some s
      else case step of
          Frame data overflowed \<Rightarrow>
            record_loop cfg
              (put_audio (Some data)
                 (if overflowed then logger Warning ''Audio buffer overflow detected''
                                       (emit (InputStream_read (chunk (audio cfg))) s)
                  else emit (InputStream_read (chunk (audio cfg))) s))
              script
        | Read_raises e \<Rightarrow>
            Some (logger Error
                    ''Microphone may have disconnected or been captured by another application''
                    (logger Error (''Error reading audio from microphone: '' @ e)
                       (emit (InputStream_read (chunk (audio cfg))) s)))
        | Stop_recording_called \<Rightarrow> record_loop cfg (stop_recording s) script)"

definition close_stream :: "SpeechToText \<Rightarrow> SpeechToText" where
  "close_stream s =
     (case audio_stream s of
        None \<Rightarrow> s
      | Some stream \<Rightarrow> emit InputStream_close (emit InputStream_stop s))"

definition start_recording :: "Config \<Rightarrow> microphone \<Rightarrow> SpeechToText \<Rightarrow> SpeechToText option" where
  "start_recording cfg mic s =
     (let s0 = acquire s
      in if is_recording s0
         then Some (release
                      (logger Debug ''Recording already in progress, ignoring start request'' s0))
         else
           let s1 = logger Info ''Initializing sounddevice for recording...''
                      (release (set_is_recording True s0))
           in case open_stream cfg mic s1 of
                (s2, Some e) \<Rightarrow>
                  Some (release (set_is_recording False (acquire
                          (logger Error
                             ''Make sure microphone is connected and selected in system, check permissions''
                             (logger Error (''Failed to open sounddevice stream: '' @ e) s2)))))
              | (s2, None) \<Rightarrow>
                  (case record_loop cfg (logger Info ''Starting audio recording...'' s2)
                          (reads mic) of
                     None \<Rightarrow> None
                   | Some s3 \<Rightarrow>
                       Some (logger Info ''Recording stopped''
                               (release (set_is_recording False (acquire (close_stream s3)))))))"

section \<open>\<open>SpeechToText.transcribe_stream\<close>\<close>

text \<open>\<open>sub in t\<close> on strings.\<close>

fun startswith :: "string \<Rightarrow> string \<Rightarrow> bool" where
  "startswith t [] = True"
| "startswith [] (c # sub) = False"
| "startswith (x # t) (c # sub) = (x = c \<and> startswith t sub)"

fun substring_in :: "string \<Rightarrow> string \<Rightarrow> bool" where
  "substring_in sub [] = (sub = [])"
| "substring_in sub (x # t) = (startswith (x # t) sub \<or> substring_in sub t)"

text \<open>
  What the world outside does during one call of \<open>transcribe_stream\<close>:
  \<^item> \<open>resolve_path\<close>: \<open>utils.resolve_path\<close>, which depends on where the program is installed;
  \<^item> \<open>from_service_account_file\<close>: \<open>Some e\<close> when loading the credentials file raises \<open>e\<close>;
  \<^item> \<open>client_error\<close>: \<open>Some e\<close> when \<open>speech.SpeechClient(...)\<close> or the construction of
    the two configuration objects raises \<open>e\<close>;
  \<^item> \<open>requests_pulled\<close>: how many requests the backend asks the request generator for;
  \<^item> \<open>responses\<close>: the responses that the stream delivers, in order;
  \<^item> \<open>stream_error\<close>: \<open>Some e\<close> when \<open>streaming_recognize\<close> or its iterator raises \<open>e\<close>
    after these responses, \<open>None\<close> when the iterator ends.
\<close>

record backend =
  resolve_path :: "string \<Rightarrow> string"
  from_service_account_file :: "string \<Rightarrow> string option"
  client_error :: "string option"
  requests_pulled :: nat
  responses :: "StreamingRecognizeResponse list"
  stream_error :: "string option"

text \<open>\<open>get_google_credentials\<close>: the second component is the exception raised, if any.\<close>

definition get_google_credentials ::
  "Config \<Rightarrow> backend \<Rightarrow> SpeechToText \<Rightarrow> SpeechToText \<times> string option" where
  "get_google_credentials cfg env s =
     (let credentials_path = resolve_path env (google_cloud_path (credentials cfg));
          s1 = logger Info (''Loading credentials from: '' @ credentials_path) s
      in case from_service_account_file env credentials_path of
           None \<Rightarrow> (s1, None)
         | Some e \<Rightarrow>
             (logger Error (''Failed to load credentials from file: '' @ e) s1,
              Some ''Google Cloud credentials not found. Please check credentials file path.''))"

text \<open>\<open>SpeechToText.generate_requests\<close>, asked for \<open>n\<close> requests: what it yields and what
  it leaves in the queue. It stops at the sentinel, and waits when the queue is empty.\<close>

fun generate_requests ::
  "bytes option list \<Rightarrow> nat \<Rightarrow> StreamingRecognizeRequest list \<times> bytes option list" where
  "generate_requests q 0 = ([], q)"
| "generate_requests [] (Suc n) = ([], [])"
| "generate_requests (None # q) (Suc n) = ([], q)"
| "generate_requests (Some data # q) (Suc n) =
     (let (requests, q') = generate_requests q n in (StreamingRecognizeRequest data # requests, q'))"

definition put_phrase :: "Phrase option \<Rightarrow> SpeechToText \<Rightarrow> SpeechToText" where
  "put_phrase item s = s\<lparr>transcription_text_queue := transcription_text_queue s @ [item]\<rparr>"

text \<open>The expression \<open>Phrase(text=..., is_final=..., accuracy=round(..., 2))\<close>.\<close>

definition make_phrase ::
  "(string \<Rightarrow> string) \<Rightarrow> SpeechRecognitionResult \<Rightarrow> SpeechRecognitionAlternative \<Rightarrow> Phrase" where
  "make_phrase strip result alternative =
     \<lparr>phrase_text = strip (transcript alternative),
      accuracy = py_round (if result_is_final result then confidence alternative
                           else stability result) 2,
      is_final = result_is_final result\<rparr>"

text \<open>\<open>for result in response.results\<close>\<close>

fun for_results ::
  "(string \<Rightarrow> string) \<Rightarrow> SpeechToText \<Rightarrow> SpeechRecognitionResult list \<Rightarrow> SpeechToText" where
  "for_results strip s [] = s"
| "for_results strip s (result # rest) =
     (case alternatives result of
        [] \<Rightarrow> for_results strip s rest
      | alternative # others \<Rightarrow>
          for_results strip (put_phrase (Some (make_phrase strip result alternative)) s) rest)"

text \<open>\<open>for response in responses\<close>\<close>

fun for_responses ::
  "(string \<Rightarrow> string) \<Rightarrow> SpeechToText \<Rightarrow> StreamingRecognizeResponse list \<Rightarrow> SpeechToText" where
  "for_responses strip s [] = s"
| "for_responses strip s (response # rest) =
     (if response_results response = [] then for_responses strip s rest
      else for_responses strip (for_results strip s (response_results response)) rest)"

text \<open>The body of \<open>try\<close>: the state when control leaves it, and the exception raised there,
  if any. Both callers pass the object's own two queues to \<open>transcribe_stream\<close>.\<close>

definition try_block ::
  "Config \<Rightarrow> (string \<Rightarrow> string) \<Rightarrow> backend \<Rightarrow> SpeechToText \<Rightarrow> SpeechToText \<times> string option" where
  "try_block cfg strip env s =
     (case get_google_credentials cfg env s of
        (s1, Some e) \<Rightarrow> (s1, Some e)
      | (s1, None) \<Rightarrow>
          (case client_error env of
             Some e \<Rightarrow> (s1, Some e)
           | None \<Rightarrow>
               (let s2 = logger Info ''Starting streaming to Google Speech-to-Text API...'' s1;
                    s3 = s2\<lparr>audio_queue :=
                             snd (generate_requests (audio_queue s2) (requests_pulled env))\<rparr>
                in (for_responses strip s3 (responses env), stream_error env))))"

text \<open>\<open>while not audio_queue.empty(): audio_queue.get_nowait()\<close>\<close>

fun drain :: "'a list \<Rightarrow> 'a list" where
  "drain [] = []"
| "drain (item # q) = drain q"

text \<open>The body of \<open>except Exception as e\<close>\<close>

definition except_block :: "string \<Rightarrow> SpeechToText \<Rightarrow> SpeechToText" where
  "except_block e s =
     (let s1 = logger Critical (''Critical error in transcription stream: '' @ e) s
      in if substring_in ''400'' e \<and> substring_in ''maximum allowed stream duration'' e
         then
           let s2 = release (set_is_transcribing False (set_is_recording False (acquire s1)));
               s3 = s2\<lparr>audio_queue := drain (audio_queue s2)\<rparr>
           in logger Info
                ''Recording stopped due to stream duration limit. Ready for new recording.'' s3
         else
           logger Error ''Recording stopped due to error. Ready for new recording.''
             (release (set_is_transcribing False (set_is_recording False (acquire s1)))))"

text \<open>The body of \<open>finally\<close>\<close>

definition finally_block :: "SpeechToText \<Rightarrow> SpeechToText" where
  "finally_block s =
     logger Info ''Transcription stream completed''
       (release (set_is_transcribing False (acquire s)))"

text \<open>
  \<open>transcribe_stream\<close>: the second component is the exception that leaves the method, if
  any. An exception raised in \<open>try\<close> is handled by \<open>except\<close>, after which nothing is pending;
  \<open>finally\<close> runs in both cases and re-raises what is pending.
\<close>

definition transcribe_stream ::
  "Config \<Rightarrow> (string \<Rightarrow> string) \<Rightarrow> backend \<Rightarrow> SpeechToText \<Rightarrow> SpeechToText \<times> string option" where
  "transcribe_stream cfg strip env s =
     (let s0 = acquire s
      in if is_transcribing s0
         then (release (logger Debug ''Transcription already in progress, ignoring'' s0), None)
         else
           let (s1, raised) = try_block cfg strip env (release (set_is_transcribing True s0));
               (s2, pending) = (case raised of
                                  None \<Rightarrow> (s1, None)
                                | Some e \<Rightarrow> (except_block e s1, None))
           in (finally_block s2, pending))"

text \<open>The phrases that the two loops put on the phrase queue, written as a list
  comprehension: one phrase for each result that has an alternative, made from its first
  alternative.\<close>

definition result_phrases ::
  "(string \<Rightarrow> string) \<Rightarrow> SpeechRecognitionResult list \<Rightarrow> Phrase list" where
  "result_phrases strip rs =
     concat (map (\<lambda>r. case alternatives r of
                          [] \<Rightarrow> []
                        | alternative # others \<Rightarrow> [make_phrase strip r alternative]) rs)"

definition response_phrases ::
  "(string \<Rightarrow> string) \<Rightarrow> StreamingRecognizeResponse list \<Rightarrow> Phrase list" where
  "response_phrases strip rs = concat (map (\<lambda>r. result_phrases strip (response_results r)) rs)"

section \<open>Example inputs\<close>

text \<open>A backend that accepts the credentials and delivers an empty response, an interim
  result (stability the float \<open>0.8333\<close>) next to a result without alternatives, and a final
  result with two alternatives (the first of confidence the float \<open>0.9149\<close>), after asking
  the request generator for one request.\<close>

definition example_backend :: backend where
  "example_backend =
     \<lparr>resolve_path = (\<lambda>p. ''C:/TypeSpeech/'' @ p),
      from_service_account_file = (\<lambda>p. None),
      client_error = None,
      requests_pulled = 1,
      responses =
        [\<lparr>response_results = []\<rparr>,
         \<lparr>response_results =
            [\<lparr>alternatives = [\<lparr>transcript = '' hello'', confidence = 0\<rparr>],
              result_is_final = False, stability = binary64 (8333 / 10000)\<rparr>,
             \<lparr>alternatives = [], result_is_final = False, stability = binary64 (1 / 100)\<rparr>]\<rparr>,
         \<lparr>response_results =
            [\<lparr>alternatives = [\<lparr>transcript = '' hello world '', confidence = binary64 (9149 / 10000)\<rparr>,
                              \<lparr>transcript = ''hollow world'', confidence = 1 / 2\<rparr>],
              result_is_final = True, stability = 0\<rparr>]\<rparr>],
      stream_error = None\<rparr>"

text \<open>An object whose recording loop runs, with two chunks waiting in the audio queue.\<close>

definition example_recording :: SpeechToText where
  "example_recording =
     init\<lparr>audio_queue := [Some ''chunk1'', Some ''chunk2''], is_recording := True\<rparr>"

text \<open>A microphone that opens, delivers two chunks, the second after an overflow, and is
  then stopped by a call of \<open>stop_recording\<close> from another thread.\<close>

definition example_microphone :: microphone where
  "example_microphone =
     \<lparr>open_error = None, start_error = None,
      reads = [Frame ''chunk1'' False, Frame ''chunk2'' True, Stop_recording_called]\<rparr>"

text \<open>A backend that takes every chunk up to the sentinel and delivers one interim result
  before its stream ends.\<close>

definition interim_backend :: backend where
  "interim_backend =
     \<lparr>resolve_path = (\<lambda>p. ''C:/TypeSpeech/'' @ p),
      from_service_account_file = (\<lambda>p. None),
      client_error = None,
      requests_pulled = 3,
      responses =
        [\<lparr>response_results =
            [\<lparr>alternatives = [\<lparr>transcript = '' hello'', confidence = 0\<rparr>],
              result_is_final = False, stability = binary64 (8333 / 10000)\<rparr>]\<rparr>],
      stream_error = None\<rparr>"

text \<open>The text of the error that the backend raises when a stream has lasted too long.\<close>

definition limit_error :: string where
  "limit_error = ''400 Exceeded maximum allowed stream duration of 305 seconds.''"

section \<open>Properties of the floats\<close>

lemma pow2_pos: "0 < pow2 n"
  by (simp add: pow2_def)

lemma pow2_powi: "pow2 n = 2 powi n"
  by (simp add: pow2_def power_int_def field_simps)

lemma pow2_add: "pow2 (m + n) = pow2 m * pow2 n"
  by (simp add: pow2_powi power_int_add)

lemma pow2_mono: "m \<le> n \<Longrightarrow> pow2 m \<le> pow2 n"
  by (simp add: pow2_powi power_int_increasing)

lemma floor_log2_bounds:
  assumes "0 < q"
  shows "pow2 (floor_log2 q) \<le> q \<and> q < pow2 (floor_log2 q + 1)"
proof -
  obtain a b where ab: "quotient_of q = (a, b)"
    by (cases "quotient_of q")
  then have b: "0 < b" and q: "q = of_int a / of_int b"
    using quotient_of_denom_pos quotient_of_div by blast+
  with assms have a: "0 < a"
    by (simp add: zero_less_divide_iff)
  define n where "n = bitlen a - bitlen b"
  have la: "2 ^ nat (bitlen a - 1) \<le> a" "a < 2 ^ nat (bitlen a)"
    using bitlen_bounds [OF a] by simp_all
  have lb: "2 ^ nat (bitlen b - 1) \<le> b" "b < 2 ^ nat (bitlen b)"
    using bitlen_bounds [OF b] by simp_all
  have pa: "1 \<le> bitlen a" and pb: "1 \<le> bitlen b"
    using a b by (simp_all add: bitlen_alt_def)
  have A1: "pow2 (bitlen a - 1) \<le> of_int a" and A2: "of_int a < pow2 (bitlen a)"
    using la pa by (simp_all add: pow2_def)
  have B1: "pow2 (bitlen b - 1) \<le> of_int b" and B2: "of_int b < pow2 (bitlen b)"
    using lb pb by (simp_all add: pow2_def)
  have lo: "pow2 (n - 1) < q"
  proof -
    have "pow2 (n - 1) * of_int b < pow2 (n - 1) * pow2 (bitlen b)"
      using B2 pow2_pos by simp
    also have "\<dots> = pow2 (bitlen a - 1)"
      by (simp add: n_def pow2_add [symmetric])
    also have "\<dots> \<le> of_int a"
      by (rule A1)
    finally show ?thesis
      using b by (simp add: q pos_less_divide_eq)
  qed
  have hi: "q < pow2 (n + 1)"
  proof -
    have "of_int a < pow2 (bitlen a)"
      by (rule A2)
    also have "\<dots> = pow2 (n + 1) * pow2 (bitlen b - 1)"
      by (simp add: n_def pow2_add [symmetric])
    also have "\<dots> \<le> pow2 (n + 1) * of_int b"
      using B1 pow2_pos [of "n + 1"] by simp
    finally show ?thesis
      using b by (simp add: q pos_divide_less_eq)
  qed
  have f: "floor_log2 q = (if pow2 n \<le> q then n else n - 1)"
    by (simp add: floor_log2_def ab n_def)
  show ?thesis
    using lo hi by (auto simp: f not_le less_imp_le)
qed

lemma round_half_even_close: "\<bar>of_int (round_half_even x) - x\<bar> \<le> 1 / 2"
proof -
  have "of_int \<lfloor>x\<rfloor> \<le> x" and "x < of_int \<lfloor>x\<rfloor> + 1"
    by linarith+
  then show ?thesis
    by (auto simp: round_half_even_def Let_def)
qed

text \<open>\<open>binary64 q\<close> is a float, and no float is nearer to \<open>q\<close>: it is a multiple of the step
  \<open>2 ^ e\<close> of the floats around \<open>q\<close>, with a significand of at most 53 bits, and it is at
  most half a step away from \<open>q\<close>.\<close>

lemma binary64_nearest:
  assumes "q \<noteq> 0"
  defines "e \<equiv> max (floor_log2 \<bar>q\<bar>) (- 1022) - 52"
  shows "\<exists>m::int. binary64 q = of_int m * pow2 e \<and> \<bar>m\<bar> \<le> 2 ^ 53
           \<and> \<bar>binary64 q - q\<bar> \<le> pow2 e / 2"
proof -
  define m where "m = round_half_even (q / pow2 e)"
  have b: "binary64 q = of_int m * pow2 e"
    using assms(1) by (simp add: binary64_def m_def e_def Let_def)
  have c: "\<bar>of_int m - q / pow2 e\<bar> \<le> 1 / 2"
    unfolding m_def by (rule round_half_even_close)
  have "of_int m * pow2 e - q = (of_int m - q / pow2 e) * pow2 e"
    using pow2_pos [of e] by (simp add: field_simps)
  then have "\<bar>binary64 q - q\<bar> = \<bar>of_int m - q / pow2 e\<bar> * pow2 e"
    using pow2_pos [of e] by (simp add: b abs_mult)
  also have "\<dots> \<le> 1 / 2 * pow2 e"
    using c pow2_pos [of e] by (simp add: mult_right_mono less_imp_le)
  finally have d: "\<bar>binary64 q - q\<bar> \<le> pow2 e / 2"
    by simp
  have pq: "0 < \<bar>q\<bar>"
    using assms(1) by simp
  have "floor_log2 \<bar>q\<bar> + 1 \<le> e + 53"
    by (simp add: e_def)
  then have "\<bar>q\<bar> < pow2 (e + 53)"
    using floor_log2_bounds [OF pq] pow2_mono [of "floor_log2 \<bar>q\<bar> + 1" "e + 53"] by linarith
  then have "\<bar>q / pow2 e\<bar> < 2 ^ 53"
    using pow2_pos [of e] by (simp add: pow2_add pos_divide_less_eq pow2_def [of 53])
  with c have "\<bar>rat_of_int m\<bar> < 2 ^ 53 + 1"
    by linarith
  then have "rat_of_int \<bar>m\<bar> < rat_of_int (2 ^ 53 + 1)"
    by simp
  then have "\<bar>m\<bar> < 2 ^ 53 + 1"
    by (simp only: of_int_less_iff)
  then have "\<bar>m\<bar> \<le> 2 ^ 53"
    by simp
  with b d show ?thesis
    by blast
qed

text \<open>The floats \<open>0.7\<close>, \<open>0.83\<close> and \<open>0.91\<close>.\<close>

lemma binary64_values:
  "binary64 (7 / 10) = 3152519739159347 / 4503599627370496"
  "binary64 (83 / 100) = 7475975381435023 / 9007199254740992"
  "binary64 (91 / 100) = 8196551321814303 / 9007199254740992"
  by code_simp+

lemma py_round_2:
  "\<exists>k::int. py_round x 2 = binary64 (of_int k / 100) \<and> \<bar>of_int k / 100 - x\<bar> \<le> 1 / 200"
proof -
  have "\<bar>of_int (round_half_even (x * 100)) - x * 100\<bar> \<le> 1 / 2"
    by (rule round_half_even_close)
  then have "\<bar>of_int (round_half_even (x * 100)) / 100 - x\<bar> \<le> 1 / 200"
    by (simp add: abs_le_iff field_simps)
  then show ?thesis
    by (auto simp: py_round_def)
qed

text \<open>\<open>round(0.8333, 2)\<close> is the float \<open>0.83\<close>, and \<open>round(0.9149, 2)\<close> the float \<open>0.91\<close>.\<close>

lemma py_round_examples:
  "py_round (binary64 (8333 / 10000)) 2 = 7475975381435023 / 9007199254740992"
  "py_round (binary64 (9149 / 10000)) 2 = 8196551321814303 / 9007199254740992"
  by code_simp+

section \<open>Properties of \<open>type_text\<close>\<close>

lemmas state_defs =
  logger_def emit_def acquire_def release_def set_is_recording_def set_is_transcribing_def

lemma effects_emit: "effects (emit e s) = effects s @ [e]"
  by (simp add: emit_def)

lemma effects_logger: "effects (logger lv msg s) = effects s @ [Log lv msg]"
  by (simp add: state_defs)

lemma effects_press_ctrl_plus:
  "effects (press_ctrl_plus key s) =
     effects s @ ctrl_plus key @ [Log Debug (''Pressed CTRL+'' @ key_name key)]"
  by (simp add: press_ctrl_plus_def state_defs ctrl_plus_def)

lemma interim_phrase_emit: "interim_phrase (emit e s) = interim_phrase s"
  by (simp add: emit_def)

lemma interim_phrase_logger: "interim_phrase (logger lv msg s) = interim_phrase s"
  by (simp add: state_defs)

lemma interim_phrase_press_ctrl_plus: "interim_phrase (press_ctrl_plus key s) = interim_phrase s"
  by (simp add: press_ctrl_plus_def state_defs)

text \<open>What one call of \<open>type_text\<close> adds to the effects when the phrase is not dropped.\<close>

lemma effects_type_text_accepted:
  assumes "is_final phrase \<or> \<not> accuracy phrase < accuracy_threshold (speech cfg)"
  shows "effects (type_text lower cfg s phrase) =
           effects s @ [Log_repr Debug phrase, Clipboard_copy (phrase_text phrase @ '' '')]
           @ (case interim_phrase s of
                None \<Rightarrow> ctrl_plus Key_V @ [Log Debug ''Pressed CTRL+V'']
              | Some ip \<Rightarrow>
                  if lower (phrase_text ip) = lower (phrase_text phrase)
                  then [Log Debug ''Interim phrase is the same, skipping'']
                  else ctrl_plus Key_Z @ [Log Debug ''Pressed CTRL+Z'']
                       @ ctrl_plus Key_V @ [Log Debug ''Pressed CTRL+V''])
           @ (if is_final phrase then [Log Info (''FINAL: '' @ phrase_text phrase)] else [])"
  using assms
  by (auto simp: type_text_def Let_def pyperclip_copy_def effects_logger effects_emit
      effects_press_ctrl_plus interim_phrase_emit split: option.splits)

lemma interim_phrase_type_text:
  "interim_phrase (type_text lower cfg s phrase) =
     (if is_final phrase then None
      else if accuracy phrase < accuracy_threshold (speech cfg) then interim_phrase s
      else Some phrase)"
  by (auto simp: type_text_def Let_def pyperclip_copy_def interim_phrase_logger
      interim_phrase_emit interim_phrase_press_ctrl_plus split: option.splits)

lemma injections_type_text_accepted:
  assumes "is_final phrase \<or> \<not> accuracy phrase < accuracy_threshold (speech cfg)"
  shows "injections (effects (type_text lower cfg s phrase)) =
           injections (effects s) @ [Clipboard_copy (phrase_text phrase @ '' '')]
           @ (case interim_phrase s of
                None \<Rightarrow> paste
              | Some ip \<Rightarrow>
                  if lower (phrase_text ip) = lower (phrase_text phrase) then []
                  else undo @ paste)"
  unfolding effects_type_text_accepted [OF assms]
  by (simp add: injections_def ctrl_plus_def paste_def undo_def split: option.splits)

text \<open>
  Claim C1. Starting with no interim phrase, the phrases interim "he", interim "hell" and
  final "hello" (accuracy 0.9), the two interim ones at or above the threshold, given to
  \<open>type_text\<close> in this order, make the injector do exactly this: write "he " to the
  clipboard and paste; write "hell ", undo, paste; write "hello ", undo, paste. The interim
  phrase is set after each of the two interim phrases and is cleared after the final one.
  (\<open>lower\<close> is \<open>str.lower\<close>, which tells the three texts apart.)
\<close>

theorem type_text_he_hell_hello:
  assumes "interim_phrase s = None"
    and "accuracy_threshold (speech cfg) \<le> a1"
    and "accuracy_threshold (speech cfg) \<le> a2"
    and "lower ''he'' \<noteq> lower ''hell''"
    and "lower ''hell'' \<noteq> lower ''hello''"
  shows "let p1 = \<lparr>phrase_text = ''he'', accuracy = a1, is_final = False\<rparr>;
             p2 = \<lparr>phrase_text = ''hell'', accuracy = a2, is_final = False\<rparr>;
             p3 = \<lparr>phrase_text = ''hello'', accuracy = 9 / 10, is_final = True\<rparr>;
             s1 = type_text lower cfg s p1;
             s2 = type_text lower cfg s1 p2;
             s3 = type_text lower cfg s2 p3
         in injections (effects s3) =
              injections (effects s)
              @ [Clipboard_copy ''he ''] @ paste
              @ [Clipboard_copy ''hell ''] @ undo @ paste
              @ [Clipboard_copy ''hello ''] @ undo @ paste
          \<and> interim_phrase s1 = Some p1
          \<and> interim_phrase s2 = Some p2
          \<and> interim_phrase s3 = None"
  using assms
  by (simp add: Let_def injections_type_text_accepted interim_phrase_type_text not_less)

theorem type_text_he_hell_hello_witness:
  "injections (effects
     (type_text ascii_lower default_config
        (type_text ascii_lower default_config
           (type_text ascii_lower default_config init
              \<lparr>phrase_text = ''he'', accuracy = 8 / 10, is_final = False\<rparr>)
           \<lparr>phrase_text = ''hell'', accuracy = 85 / 100, is_final = False\<rparr>)
        \<lparr>phrase_text = ''hello'', accuracy = 9 / 10, is_final = True\<rparr>)) =
   [Clipboard_copy ''he '',
    Keybd_event 17 0, Keybd_event 86 0, Keybd_event 86 2, Keybd_event 17 2,
    Clipboard_copy ''hell '',
    Keybd_event 17 0, Keybd_event 90 0, Keybd_event 90 2, Keybd_event 17 2,
    Keybd_event 17 0, Keybd_event 86 0, Keybd_event 86 2, Keybd_event 17 2,
    Clipboard_copy ''hello '',
    Keybd_event 17 0, Keybd_event 90 0, Keybd_event 90 2, Keybd_event 17 2,
    Keybd_event 17 0, Keybd_event 86 0, Keybd_event 86 2, Keybd_event 17 2]"
proof -
  have l1: "ascii_lower ''he'' \<noteq> ascii_lower ''hell''"
    and l2: "ascii_lower ''hell'' \<noteq> ascii_lower ''hello''"
    by (simp_all add: ascii_lower_def)
  have i: "interim_phrase init = None"
    and t1: "accuracy_threshold (speech default_config) \<le> 8 / 10"
    and t2: "accuracy_threshold (speech default_config) \<le> 85 / 100"
    by (simp_all add: init_def default_config_def binary64_values)
  show ?thesis
    using type_text_he_hell_hello [OF i t1 t2 l1 l2]
    by (simp add: Let_def init_def injections_def paste_def undo_def ctrl_plus_def
        VK_CONTROL_def KEYEVENTF_KEYUP_def)
qed

text \<open>
  Claim C5. An interim phrase whose accuracy is strictly below the configured threshold
  is dropped: \<open>type_text\<close> writes two debug records to the log and changes nothing else, so
  there is no clipboard write, no keystroke, and the interim phrase is what it was.
\<close>

theorem type_text_drops_low_accuracy_interim:
  assumes "\<not> is_final phrase"
    and "accuracy phrase < accuracy_threshold (speech cfg)"
  shows "type_text lower cfg s phrase =
           s\<lparr>effects := effects s @ [Log_repr Debug phrase, Log Debug ''Low accuracy, skipping'']\<rparr>
         \<and> injections (effects (type_text lower cfg s phrase)) = injections (effects s)
         \<and> interim_phrase (type_text lower cfg s phrase) = interim_phrase s"
  using assms by (simp add: type_text_def state_defs injections_def)

theorem type_text_drops_low_accuracy_interim_witness:
  "effects (type_text ascii_lower default_config init
              \<lparr>phrase_text = ''he'', accuracy = 5 / 10, is_final = False\<rparr>) =
     [Log_repr Debug \<lparr>phrase_text = ''he'', accuracy = 5 / 10, is_final = False\<rparr>,
      Log Debug ''Low accuracy, skipping'']
   \<and> interim_phrase (type_text ascii_lower default_config init
              \<lparr>phrase_text = ''he'', accuracy = 5 / 10, is_final = False\<rparr>) = None"
proof -
  have f: "\<not> is_final \<lparr>phrase_text = ''he'', accuracy = 5 / 10, is_final = False\<rparr>"
    by simp
  have a: "accuracy \<lparr>phrase_text = ''he'', accuracy = 5 / 10, is_final = False\<rparr>
             < accuracy_threshold (speech default_config)"
    by (simp add: default_config_def binary64_values)
  show ?thesis
    using type_text_drops_low_accuracy_interim [OF f a, of ascii_lower init]
    by (simp add: init_def)
qed

lemma keystrokes_type_text_accepted:
  assumes "is_final phrase \<or> \<not> accuracy phrase < accuracy_threshold (speech cfg)"
  shows "keystrokes (effects (type_text lower cfg s phrase)) =
           keystrokes (effects s)
           @ (case interim_phrase s of
                None \<Rightarrow> paste
              | Some ip \<Rightarrow>
                  if lower (phrase_text ip) = lower (phrase_text phrase) then []
                  else undo @ paste)"
  unfolding effects_type_text_accepted [OF assms]
  by (simp add: keystrokes_def ctrl_plus_def paste_def undo_def split: option.splits)

text \<open>
  Claim C6. Two interim phrases in a row, both at or above the threshold, whose texts are
  equal up to case: the second one writes the clipboard and a debug record and sends no
  keystroke at all, neither paste nor undo. The keystrokes of the pair are those of the
  first phrase, which is at most one paste or one undo followed by a paste.
\<close>

theorem type_text_duplicate_interim_not_pasted:
  assumes "\<not> is_final p1" and "\<not> is_final p2"
    and "accuracy_threshold (speech cfg) \<le> accuracy p1"
    and "accuracy_threshold (speech cfg) \<le> accuracy p2"
    and "lower (phrase_text p1) = lower (phrase_text p2)"
  shows "let s1 = type_text lower cfg s p1;
             s2 = type_text lower cfg s1 p2
         in effects s2 =
              effects s1 @ [Log_repr Debug p2, Clipboard_copy (phrase_text p2 @ '' ''),
                            Log Debug ''Interim phrase is the same, skipping'']
          \<and> keystrokes (effects s2) = keystrokes (effects s1)
          \<and> keystrokes (effects s1) =
              keystrokes (effects s)
              @ (case interim_phrase s of
                   None \<Rightarrow> paste
                 | Some ip \<Rightarrow>
                     if lower (phrase_text ip) = lower (phrase_text p1) then []
                     else undo @ paste)"
proof -
  define s1 where "s1 = type_text lower cfg s p1"
  have acc1: "is_final p1 \<or> \<not> accuracy p1 < accuracy_threshold (speech cfg)"
    and acc2: "is_final p2 \<or> \<not> accuracy p2 < accuracy_threshold (speech cfg)"
    using assms by (simp_all add: not_less)
  have ip: "interim_phrase s1 = Some p1"
    using assms by (simp add: s1_def interim_phrase_type_text not_less)
  have e2: "effects (type_text lower cfg s1 p2) =
              effects s1 @ [Log_repr Debug p2, Clipboard_copy (phrase_text p2 @ '' ''),
                            Log Debug ''Interim phrase is the same, skipping'']"
    using assms ip by (simp add: effects_type_text_accepted [OF acc2])
  have k2: "keystrokes (effects (type_text lower cfg s1 p2)) = keystrokes (effects s1)"
    using assms ip by (simp add: keystrokes_type_text_accepted [OF acc2])
  have k1: "keystrokes (effects s1) =
              keystrokes (effects s)
              @ (case interim_phrase s of
                   None \<Rightarrow> paste
                 | Some ip \<Rightarrow>
                     if lower (phrase_text ip) = lower (phrase_text p1) then []
                     else undo @ paste)"
    unfolding s1_def by (rule keystrokes_type_text_accepted [OF acc1])
  from e2 k2 k1 show ?thesis
    unfolding Let_def s1_def by blast
qed

theorem type_text_duplicate_interim_not_pasted_witness:
  "keystrokes (effects
     (type_text ascii_lower default_config
        (type_text ascii_lower default_config init
           \<lparr>phrase_text = ''Hello'', accuracy = 8 / 10, is_final = False\<rparr>)
        \<lparr>phrase_text = ''hello'', accuracy = 9 / 10, is_final = False\<rparr>)) =
   [Keybd_event 17 0, Keybd_event 86 0, Keybd_event 86 2, Keybd_event 17 2]"
proof -
  have f: "\<not> is_final \<lparr>phrase_text = ''Hello'', accuracy = 8 / 10, is_final = False\<rparr>"
    "\<not> is_final \<lparr>phrase_text = ''hello'', accuracy = 9 / 10, is_final = False\<rparr>"
    by simp_all
  have a: "accuracy_threshold (speech default_config)
             \<le> accuracy \<lparr>phrase_text = ''Hello'', accuracy = 8 / 10, is_final = False\<rparr>"
    "accuracy_threshold (speech default_config)
             \<le> accuracy \<lparr>phrase_text = ''hello'', accuracy = 9 / 10, is_final = False\<rparr>"
    by (simp_all add: default_config_def binary64_values)
  have l: "ascii_lower (phrase_text \<lparr>phrase_text = ''Hello'', accuracy = 8 / 10, is_final = False\<rparr>)
         = ascii_lower (phrase_text \<lparr>phrase_text = ''hello'', accuracy = 9 / 10, is_final = False\<rparr>)"
    by code_simp
  show ?thesis
    using type_text_duplicate_interim_not_pasted [OF f a l, of init]
    by (simp add: Let_def init_def keystrokes_def paste_def ctrl_plus_def
        VK_CONTROL_def KEYEVENTF_KEYUP_def)
qed

text \<open>
  Claim C10, as amended. The threshold filters interim phrases only: a final phrase, however
  low its accuracy, always has its text and a space written to the clipboard and clears the
  interim phrase. It is pasted when there is no interim phrase, and undo-pasted when the
  interim phrase has another text; when the interim phrase has the same text up to case, no
  keystroke is sent. The claim as stated, that every final phrase is pasted or undo-pasted,
  fails in this last case: the interim "hello" followed by the final "hello" of accuracy 0.
\<close>

theorem type_text_final_never_dropped:
  assumes "is_final phrase"
  shows "injections (effects (type_text lower cfg s phrase)) =
           injections (effects s) @ [Clipboard_copy (phrase_text phrase @ '' '')]
           @ (case interim_phrase s of
                None \<Rightarrow> paste
              | Some ip \<Rightarrow>
                  if lower (phrase_text ip) = lower (phrase_text phrase) then []
                  else undo @ paste)
         \<and> interim_phrase (type_text lower cfg s phrase) = None"
  using assms by (simp add: injections_type_text_accepted interim_phrase_type_text)

theorem type_text_final_never_dropped_witness:
  "injections (effects (type_text ascii_lower default_config init
      \<lparr>phrase_text = ''hello'', accuracy = 0, is_final = True\<rparr>)) =
   [Clipboard_copy ''hello '',
    Keybd_event 17 0, Keybd_event 86 0, Keybd_event 86 2, Keybd_event 17 2]"
proof -
  have f: "is_final \<lparr>phrase_text = ''hello'', accuracy = 0, is_final = True\<rparr>"
    by simp
  show ?thesis
    using type_text_final_never_dropped [OF f, of ascii_lower default_config init]
    by (simp add: init_def injections_def paste_def ctrl_plus_def
        VK_CONTROL_def KEYEVENTF_KEYUP_def)
qed

theorem type_text_final_duplicate_counterexample:
  "is_final \<lparr>phrase_text = ''hello'', accuracy = 0, is_final = True\<rparr>
   \<and> effects
       (type_text ascii_lower default_config
          (type_text ascii_lower default_config init
             \<lparr>phrase_text = ''hello'', accuracy = 9 / 10, is_final = False\<rparr>)
          \<lparr>phrase_text = ''hello'', accuracy = 0, is_final = True\<rparr>) =
     [Log_repr Debug \<lparr>phrase_text = ''hello'', accuracy = 9 / 10, is_final = False\<rparr>,
      Clipboard_copy ''hello '',
      Keybd_event 17 0, Keybd_event 86 0, Keybd_event 86 2, Keybd_event 17 2,
      Log Debug ''Pressed CTRL+V'',
      Log_repr Debug \<lparr>phrase_text = ''hello'', accuracy = 0, is_final = True\<rparr>,
      Clipboard_copy ''hello '',
      Log Debug ''Interim phrase is the same, skipping'',
      Log Info ''FINAL: hello'']"
  by (simp add: effects_type_text_accepted interim_phrase_type_text init_def default_config_def binary64_values
      ctrl_plus_def VK_CONTROL_def KEYEVENTF_KEYUP_def)

section \<open>Properties of \<open>transcribe_stream\<close>\<close>

lemma for_results_eq:
  "for_results strip s rs =
     s\<lparr>transcription_text_queue := transcription_text_queue s @ map Some (result_phrases strip rs)\<rparr>"
  by (induction rs arbitrary: s) (auto simp: result_phrases_def put_phrase_def split: list.splits)

lemma for_responses_eq:
  "for_responses strip s rs =
     s\<lparr>transcription_text_queue := transcription_text_queue s @ map Some (response_phrases strip rs)\<rparr>"
  by (induction rs arbitrary: s) (auto simp: for_results_eq response_phrases_def result_phrases_def)

lemma drain_Nil: "drain q = []"
  by (induction q) auto

lemma try_block_text_queue:
  "transcription_text_queue (fst (try_block cfg strip env s)) =
     transcription_text_queue s
     @ map Some (case from_service_account_file env
                        (resolve_path env (google_cloud_path (credentials cfg))) of
                   Some e \<Rightarrow> []
                 | None \<Rightarrow> (case client_error env of
                              Some e \<Rightarrow> []
                            | None \<Rightarrow> response_phrases strip (responses env)))"
  by (simp add: try_block_def get_google_credentials_def Let_def state_defs
      for_responses_eq split: option.splits)

lemma except_block_text_queue:
  "transcription_text_queue (except_block e s) = transcription_text_queue s"
  by (simp add: except_block_def Let_def state_defs)

lemma try_block_flags:
  "is_transcribing (fst (try_block cfg strip env s)) = is_transcribing s"
  "is_recording (fst (try_block cfg strip env s)) = is_recording s"
  "recording_lock (fst (try_block cfg strip env s)) = recording_lock s"
  by (simp_all add: try_block_def get_google_credentials_def Let_def state_defs
      for_responses_eq split: option.splits)

lemma transcribe_stream_refused:
  assumes "is_transcribing s"
  shows "transcribe_stream cfg strip env s =
           (release (logger Debug ''Transcription already in progress, ignoring'' (acquire s)),
            None)"
  using assms by (simp add: transcribe_stream_def Let_def acquire_def)

lemma transcribe_stream_accepted:
  assumes "\<not> is_transcribing s"
    and "try_block cfg strip env (release (set_is_transcribing True (acquire s))) = (s1, raised)"
  shows "transcribe_stream cfg strip env s =
           (finally_block (case raised of None \<Rightarrow> s1 | Some e \<Rightarrow> except_block e s1), None)"
proof -
  have "\<not> is_transcribing (acquire s)"
    using assms(1) by (simp add: acquire_def)
  then show ?thesis
    using assms(2) by (simp add: transcribe_stream_def Let_def split: option.splits)
qed

lemma transcribe_stream_text_queue:
  "transcription_text_queue (fst (transcribe_stream cfg strip env s)) =
     transcription_text_queue s
     @ map Some (if is_transcribing s then []
                 else case from_service_account_file env
                        (resolve_path env (google_cloud_path (credentials cfg))) of
                   Some e \<Rightarrow> []
                 | None \<Rightarrow> (case client_error env of
                              Some e \<Rightarrow> []
                            | None \<Rightarrow> response_phrases strip (responses env)))"
proof (cases "is_transcribing s")
  case True
  then show ?thesis
    by (simp add: transcribe_stream_refused state_defs)
next
  case False
  define s0 where "s0 = release (set_is_transcribing True (acquire s))"
  obtain s1 raised where t: "try_block cfg strip env s0 = (s1, raised)"
    by (cases "try_block cfg strip env s0")
  have q0: "transcription_text_queue s0 = transcription_text_queue s"
    by (simp add: s0_def state_defs)
  have "transcription_text_queue s1 =
     transcription_text_queue s
     @ map Some (case from_service_account_file env
                        (resolve_path env (google_cloud_path (credentials cfg))) of
                   Some e \<Rightarrow> []
                 | None \<Rightarrow> (case client_error env of
                              Some e \<Rightarrow> []
                            | None \<Rightarrow> response_phrases strip (responses env)))"
    using try_block_text_queue [of cfg strip env s0] t q0 by simp
  moreover have "transcribe_stream cfg strip env s =
      (finally_block (case raised of None \<Rightarrow> s1 | Some e \<Rightarrow> except_block e s1), None)"
    using False t unfolding s0_def by (rule transcribe_stream_accepted)
  ultimately show ?thesis
    using False
    by (simp add: finally_block_def state_defs except_block_text_queue split: option.splits)
qed

lemma response_phrases_sound:
  assumes "p \<in> set (response_phrases strip rs)"
  shows "\<exists>response \<in> set rs. \<exists>result \<in> set (response_results response).
           \<exists>alternative others.
             alternatives result = alternative # others
           \<and> p = make_phrase strip result alternative"
proof -
  from assms obtain response
    where r: "response \<in> set rs"
      and "p \<in> set (result_phrases strip (response_results response))"
    by (auto simp: response_phrases_def)
  then obtain result
    where q: "result \<in> set (response_results response)"
      and m: "p \<in> set (case alternatives result of
                         [] \<Rightarrow> []
                       | alternative # others \<Rightarrow> [make_phrase strip result alternative])"
    by (auto simp: result_phrases_def)
  from m obtain alternative others
    where "alternatives result = alternative # others"
      and "p = make_phrase strip result alternative"
    by (cases "alternatives result") auto
  with r q show ?thesis
    by blast
qed

lemma transcribe_stream_raised:
  assumes "\<not> is_transcribing s"
    and "try_block cfg strip env (release (set_is_transcribing True (acquire s))) = (s1, Some e)"
  shows "transcribe_stream cfg strip env s = (finally_block (except_block e s1), None)"
  using transcribe_stream_accepted [OF assms] by simp

lemma transcribe_stream_completed:
  assumes "\<not> is_transcribing s"
    and "try_block cfg strip env (release (set_is_transcribing True (acquire s))) = (s1, None)"
  shows "transcribe_stream cfg strip env s = (finally_block s1, None)"
  using transcribe_stream_accepted [OF assms] by simp

lemma try_block_collapse:
  assumes "snd (try_block cfg strip env s) = r"
  shows "try_block cfg strip env s = (fst (try_block cfg strip env s), r)"
  using assms by (metis prod.collapse)

lemma limit_error_400: "substring_in ''400'' limit_error"
  and limit_error_duration: "substring_in ''maximum allowed stream duration'' limit_error"
  by (simp_all add: limit_error_def)

text \<open>
  Claim C4. Every phrase that \<open>transcribe_stream\<close> puts on the phrase queue comes from a
  result of a response and the first (best) alternative of this result: its text is the
  transcript of the alternative with \<open>str.strip\<close> applied, its \<open>is_final\<close> is that of the
  result, and its accuracy is \<open>round(x, 2)\<close>, where \<open>x\<close> is the confidence of the
  alternative (final result) or the stability of the result (interim result). Whatever
  the precision of \<open>x\<close>, this is the float that stands for a number of exactly two decimals:
  the float nearest to \<open>k / 100\<close>, for a whole number \<open>k\<close> of hundredths that differs
  from \<open>x\<close> by at most half a hundredth.
\<close>

theorem transcribe_stream_phrases:
  "\<exists>ps. transcription_text_queue (fst (transcribe_stream cfg strip env s)) =
           transcription_text_queue s @ map Some ps
       \<and> (\<forall>p \<in> set ps.
            \<exists>response \<in> set (responses env). \<exists>result \<in> set (response_results response).
            \<exists>alternative others.
              alternatives result = alternative # others
            \<and> phrase_text p = strip (transcript alternative)
            \<and> is_final p = result_is_final result
            \<and> accuracy p = py_round (if result_is_final result then confidence alternative
                                      else stability result) 2
            \<and> (\<exists>k::int.
                  accuracy p = binary64 (of_int k / 100)
                \<and> \<bar>of_int k / 100 - (if result_is_final result then confidence alternative
                                       else stability result)\<bar> \<le> 1 / 200))"
proof -
  define ps where "ps = (if is_transcribing s then []
                 else case from_service_account_file env
                        (resolve_path env (google_cloud_path (credentials cfg))) of
                   Some e \<Rightarrow> []
                 | None \<Rightarrow> (case client_error env of
                              Some e \<Rightarrow> []
                            | None \<Rightarrow> response_phrases strip (responses env)))"
  have q: "transcription_text_queue (fst (transcribe_stream cfg strip env s)) =
           transcription_text_queue s @ map Some ps"
    unfolding ps_def by (rule transcribe_stream_text_queue)
  have sub: "set ps \<subseteq> set (response_phrases strip (responses env))"
    by (auto simp: ps_def split: option.splits if_splits)
  have "\<exists>response \<in> set (responses env). \<exists>result \<in> set (response_results response).
            \<exists>alternative others.
              alternatives result = alternative # others
            \<and> phrase_text p = strip (transcript alternative)
            \<and> is_final p = result_is_final result
            \<and> accuracy p = py_round (if result_is_final result then confidence alternative
                                      else stability result) 2
            \<and> (\<exists>k::int.
                  accuracy p = binary64 (of_int k / 100)
                \<and> \<bar>of_int k / 100 - (if result_is_final result then confidence alternative
                                       else stability result)\<bar> \<le> 1 / 200)"
    if "p \<in> set ps" for p
  proof -
    from that sub have "p \<in> set (response_phrases strip (responses env))"
      by blast
    then obtain response result alternative others
      where r: "response \<in> set (responses env)" "result \<in> set (response_results response)"
        and a: "alternatives result = alternative # others"
        and p: "p = make_phrase strip result alternative"
      using response_phrases_sound by blast
    define x where
      "x = (if result_is_final result then confidence alternative else stability result)"
    have t: "phrase_text p = strip (transcript alternative)"
      and f: "is_final p = result_is_final result"
      and c: "accuracy p = py_round x 2"
      by (simp_all add: p make_phrase_def x_def)
    obtain k :: int
      where "py_round x 2 = binary64 (of_int k / 100)" and "\<bar>of_int k / 100 - x\<bar> \<le> 1 / 200"
      using py_round_2 by blast
    with c have "\<exists>k::int. accuracy p = binary64 (of_int k / 100)
                   \<and> \<bar>of_int k / 100 - x\<bar> \<le> 1 / 200"
      by auto
    with r a t f c show ?thesis
      unfolding x_def by blast
  qed
  with q show ?thesis
    by blast
qed

theorem transcribe_stream_phrases_witness:
  "transcription_text_queue (fst (transcribe_stream default_config ascii_strip example_backend init)) =
     [Some \<lparr>phrase_text = ''hello'', accuracy = 7475975381435023 / 9007199254740992,
            is_final = False\<rparr>,
      Some \<lparr>phrase_text = ''hello world'', accuracy = 8196551321814303 / 9007199254740992,
            is_final = True\<rparr>]"
  using transcribe_stream_phrases [of default_config ascii_strip example_backend init]
  by (simp add: transcribe_stream_text_queue response_phrases_def result_phrases_def
      make_phrase_def py_round_examples example_backend_def init_def default_config_def binary64_values
      ascii_strip_def ascii_isspace_def)

text \<open>
  Claim C2, as amended. When the body of \<open>try\<close> raises an exception whose text contains both
  "400" and "maximum allowed stream duration", \<open>transcribe_stream\<close> returns without raising,
  with \<open>is_recording\<close> and \<open>is_transcribing\<close> false and the audio queue empty, after logging
  the error at critical level and the recovery at info level. The claim as stated, for every
  text that contains "maximum allowed stream duration", fails on a text without "400": the
  handler then takes its other branch, which logs at error level and does not empty the
  queue.
\<close>

theorem transcribe_stream_limit_reset:
  assumes "\<not> is_transcribing s"
    and "try_block cfg strip env (release (set_is_transcribing True (acquire s))) = (s1, Some e)"
    and "substring_in ''400'' e"
    and "substring_in ''maximum allowed stream duration'' e"
  shows "\<not> is_recording (fst (transcribe_stream cfg strip env s))
       \<and> \<not> is_transcribing (fst (transcribe_stream cfg strip env s))
       \<and> audio_queue (fst (transcribe_stream cfg strip env s)) = []
       \<and> effects (fst (transcribe_stream cfg strip env s)) =
           effects s1 @ [Log Critical (''Critical error in transcription stream: '' @ e),
                         Log Info ''Recording stopped due to stream duration limit. Ready for new recording.'',
                         Log Info ''Transcription stream completed'']
       \<and> snd (transcribe_stream cfg strip env s) = None"
  unfolding transcribe_stream_raised [OF assms(1,2)]
  using assms(3,4)
  by (simp add: finally_block_def except_block_def Let_def state_defs drain_Nil)

theorem transcribe_stream_limit_reset_witness:
  "audio_queue example_recording = [Some ''chunk1'', Some ''chunk2'']
   \<and> is_recording example_recording
   \<and> audio_queue (fst (transcribe_stream default_config ascii_strip
        (example_backend\<lparr>stream_error := Some limit_error\<rparr>) example_recording)) = []
   \<and> \<not> is_recording (fst (transcribe_stream default_config ascii_strip
        (example_backend\<lparr>stream_error := Some limit_error\<rparr>) example_recording))
   \<and> \<not> is_transcribing (fst (transcribe_stream default_config ascii_strip
        (example_backend\<lparr>stream_error := Some limit_error\<rparr>) example_recording))
   \<and> snd (transcribe_stream default_config ascii_strip
        (example_backend\<lparr>stream_error := Some limit_error\<rparr>) example_recording) = None"
proof -
  have n: "\<not> is_transcribing example_recording"
    by (simp add: example_recording_def init_def)
  have "snd (try_block default_config ascii_strip (example_backend\<lparr>stream_error := Some limit_error\<rparr>)
               (release (set_is_transcribing True (acquire example_recording)))) = Some limit_error"
    by (simp add: try_block_def get_google_credentials_def Let_def example_backend_def)
  then have t: "try_block default_config ascii_strip (example_backend\<lparr>stream_error := Some limit_error\<rparr>)
               (release (set_is_transcribing True (acquire example_recording))) =
          (fst (try_block default_config ascii_strip (example_backend\<lparr>stream_error := Some limit_error\<rparr>)
               (release (set_is_transcribing True (acquire example_recording)))), Some limit_error)"
    by (rule try_block_collapse)
  show ?thesis
    using transcribe_stream_limit_reset [OF n t limit_error_400 limit_error_duration]
    by (simp add: example_recording_def init_def)
qed

theorem transcribe_stream_limit_without_400_counterexample:
  "substring_in ''maximum allowed stream duration''
     ''Exceeded maximum allowed stream duration of 305 seconds.''
   \<and> audio_queue example_recording = [Some ''chunk1'', Some ''chunk2'']
   \<and> audio_queue (fst (transcribe_stream default_config ascii_strip
        (example_backend\<lparr>stream_error :=
           Some ''Exceeded maximum allowed stream duration of 305 seconds.''\<rparr>)
        example_recording)) = [Some ''chunk2'']
   \<and> effects (fst (transcribe_stream default_config ascii_strip
        (example_backend\<lparr>stream_error :=
           Some ''Exceeded maximum allowed stream duration of 305 seconds.''\<rparr>)
        example_recording)) =
       [Log Info ''Loading credentials from: C:/TypeSpeech/credentials/google-credentials.json'',
        Log Info ''Starting streaming to Google Speech-to-Text API...'',
        Log Critical ''Critical error in transcription stream: Exceeded maximum allowed stream duration of 305 seconds.'',
        Log Error ''Recording stopped due to error. Ready for new recording.'',
        Log Info ''Transcription stream completed'']"
  by (simp add: transcribe_stream_def try_block_def get_google_credentials_def except_block_def
      finally_block_def Let_def state_defs for_responses_eq example_backend_def
      example_recording_def init_def default_config_def binary64_values)

text \<open>
  Claim C3, as amended. When the body of \<open>try\<close> raises an exception that the handler does not
  take for the stream limit (its text lacks "400" or lacks "maximum allowed stream
  duration"), \<open>transcribe_stream\<close> returns without raising, with \<open>is_recording\<close> and
  \<open>is_transcribing\<close> false, after logging at critical and at error level. The audio queue is
  left as it was when the exception was raised: the claim as stated, that the queue is
  drained as in the stream-limit case, fails.
\<close>

theorem transcribe_stream_other_error_reset:
  assumes "\<not> is_transcribing s"
    and "try_block cfg strip env (release (set_is_transcribing True (acquire s))) = (s1, Some e)"
    and "\<not> (substring_in ''400'' e \<and> substring_in ''maximum allowed stream duration'' e)"
  shows "\<not> is_recording (fst (transcribe_stream cfg strip env s))
       \<and> \<not> is_transcribing (fst (transcribe_stream cfg strip env s))
       \<and> audio_queue (fst (transcribe_stream cfg strip env s)) = audio_queue s1
       \<and> effects (fst (transcribe_stream cfg strip env s)) =
           effects s1 @ [Log Critical (''Critical error in transcription stream: '' @ e),
                         Log Error ''Recording stopped due to error. Ready for new recording.'',
                         Log Info ''Transcription stream completed'']
       \<and> snd (transcribe_stream cfg strip env s) = None"
  unfolding transcribe_stream_raised [OF assms(1,2)]
  using assms(3)
  by (simp add: finally_block_def except_block_def Let_def state_defs)

theorem transcribe_stream_other_error_reset_witness:
  "effects (fst (transcribe_stream default_config ascii_strip
      (example_backend\<lparr>from_service_account_file := (\<lambda>p. Some ''No such file or directory'')\<rparr>)
      example_recording)) =
     [Log Info ''Loading credentials from: C:/TypeSpeech/credentials/google-credentials.json'',
      Log Error ''Failed to load credentials from file: No such file or directory'',
      Log Critical ''Critical error in transcription stream: Google Cloud credentials not found. Please check credentials file path.'',
      Log Error ''Recording stopped due to error. Ready for new recording.'',
      Log Info ''Transcription stream completed'']
   \<and> audio_queue (fst (transcribe_stream default_config ascii_strip
      (example_backend\<lparr>from_service_account_file := (\<lambda>p. Some ''No such file or directory'')\<rparr>)
      example_recording)) = [Some ''chunk1'', Some ''chunk2'']
   \<and> \<not> is_recording (fst (transcribe_stream default_config ascii_strip
      (example_backend\<lparr>from_service_account_file := (\<lambda>p. Some ''No such file or directory'')\<rparr>)
      example_recording))
   \<and> \<not> is_transcribing (fst (transcribe_stream default_config ascii_strip
      (example_backend\<lparr>from_service_account_file := (\<lambda>p. Some ''No such file or directory'')\<rparr>)
      example_recording))
   \<and> snd (transcribe_stream default_config ascii_strip
      (example_backend\<lparr>from_service_account_file := (\<lambda>p. Some ''No such file or directory'')\<rparr>)
      example_recording) = None"
proof -
  let ?env = "example_backend\<lparr>from_service_account_file := (\<lambda>p. Some ''No such file or directory'')\<rparr>"
  let ?e = "''Google Cloud credentials not found. Please check credentials file path.''"
  have n: "\<not> is_transcribing example_recording"
    by (simp add: example_recording_def init_def)
  have "snd (try_block default_config ascii_strip ?env (release (set_is_transcribing True (acquire example_recording))))
          = Some ?e"
    by (simp add: try_block_def get_google_credentials_def Let_def example_backend_def)
  then have t: "try_block default_config ascii_strip ?env (release (set_is_transcribing True (acquire example_recording)))
          = (fst (try_block default_config ascii_strip ?env (release (set_is_transcribing True (acquire example_recording)))),
             Some ?e)"
    by (rule try_block_collapse)
  have c: "\<not> (substring_in ''400'' ?e \<and> substring_in ''maximum allowed stream duration'' ?e)"
    by simp
  show ?thesis
    using transcribe_stream_other_error_reset [OF n t c]
    by (simp add: try_block_def get_google_credentials_def Let_def state_defs
        example_backend_def example_recording_def init_def default_config_def binary64_values)
qed

theorem transcribe_stream_other_error_counterexample:
  "\<not> substring_in ''maximum allowed stream duration'' ''503 Service Unavailable''
   \<and> audio_queue example_recording = [Some ''chunk1'', Some ''chunk2'']
   \<and> audio_queue (fst (transcribe_stream default_config ascii_strip
        (example_backend\<lparr>stream_error := Some ''503 Service Unavailable''\<rparr>)
        example_recording)) = [Some ''chunk2'']
   \<and> \<not> is_recording (fst (transcribe_stream default_config ascii_strip
        (example_backend\<lparr>stream_error := Some ''503 Service Unavailable''\<rparr>)
        example_recording))
   \<and> \<not> is_transcribing (fst (transcribe_stream default_config ascii_strip
        (example_backend\<lparr>stream_error := Some ''503 Service Unavailable''\<rparr>)
        example_recording))"
  by (simp add: transcribe_stream_def try_block_def get_google_credentials_def except_block_def
      finally_block_def Let_def state_defs for_responses_eq example_backend_def
      example_recording_def init_def default_config_def binary64_values)

text \<open>
  Claim C7. A call of \<open>transcribe_stream\<close> that enters \<open>try\<close> has set \<open>is_transcribing\<close>
  under the lock, and the flag is still set when control leaves \<open>try\<close>. Whatever the
  backend does then (the response loop ends, it raises the stream-limit error, or it raises
  anything else, which \<open>except\<close> handles), the call ends with the body of \<open>finally\<close> applied
  to the state that leaves \<open>try\<close> and \<open>except\<close>: it acquires the lock, writes false to
  \<open>is_transcribing\<close>, releases the lock and logs. So \<open>is_transcribing\<close> is false when the
  method returns, and no exception leaves it.
\<close>

theorem transcribe_stream_clears_is_transcribing:
  assumes "\<not> is_transcribing s"
    and "try_block cfg strip env (release (set_is_transcribing True (acquire s))) = (s1, raised)"
  shows "is_transcribing s1
       \<and> recording_lock s1 = recording_lock s @ [Acquire, Write_is_transcribing True, Release]
       \<and> fst (transcribe_stream cfg strip env s) =
           finally_block (case raised of None \<Rightarrow> s1 | Some e \<Rightarrow> except_block e s1)
       \<and> recording_lock (fst (transcribe_stream cfg strip env s)) =
           recording_lock (case raised of None \<Rightarrow> s1 | Some e \<Rightarrow> except_block e s1)
           @ [Acquire, Write_is_transcribing False, Release]
       \<and> \<not> is_transcribing (fst (transcribe_stream cfg strip env s))
       \<and> snd (transcribe_stream cfg strip env s) = None"
proof -
  let ?s0 = "release (set_is_transcribing True (acquire s))"
  let ?s2 = "case raised of None \<Rightarrow> s1 | Some e \<Rightarrow> except_block e s1"
  have s1: "s1 = fst (try_block cfg strip env ?s0)"
    using assms(2) by simp
  have a: "is_transcribing s1"
    unfolding s1 try_block_flags by (simp add: state_defs)
  have b: "recording_lock s1 = recording_lock s @ [Acquire, Write_is_transcribing True, Release]"
    unfolding s1 try_block_flags by (simp add: state_defs)
  have c: "transcribe_stream cfg strip env s = (finally_block ?s2, None)"
    using assms by (rule transcribe_stream_accepted)
  have d: "recording_lock (finally_block ?s2) =
             recording_lock ?s2 @ [Acquire, Write_is_transcribing False, Release]"
    by (simp add: finally_block_def state_defs)
  have e: "\<not> is_transcribing (finally_block ?s2)"
    by (simp add: finally_block_def state_defs)
  from a b c d e show ?thesis
    by simp
qed

theorem transcribe_stream_clears_is_transcribing_witness:
  "\<not> is_transcribing example_recording
   \<and> \<not> is_transcribing (fst (transcribe_stream default_config ascii_strip example_backend
        example_recording))
   \<and> recording_lock (fst (transcribe_stream default_config ascii_strip example_backend
        example_recording)) =
       [Acquire, Write_is_transcribing True, Release,
        Acquire, Write_is_transcribing False, Release]
   \<and> snd (transcribe_stream default_config ascii_strip example_backend example_recording) = None"
proof -
  let ?s0 = "release (set_is_transcribing True (acquire example_recording))"
  have n: "\<not> is_transcribing example_recording"
    by (simp add: example_recording_def init_def)
  have r: "snd (try_block default_config ascii_strip example_backend ?s0) = None"
    by (simp add: try_block_def get_google_credentials_def Let_def example_backend_def)
  have t: "try_block default_config ascii_strip example_backend ?s0 =
             (fst (try_block default_config ascii_strip example_backend ?s0), None)"
    using r by (rule try_block_collapse)
  have l: "recording_lock (fst (try_block default_config ascii_strip example_backend ?s0)) =
             [Acquire, Write_is_transcribing True, Release]"
    unfolding try_block_flags by (simp add: state_defs example_recording_def init_def)
  note th = transcribe_stream_clears_is_transcribing [OF n t, unfolded option.case]
  have a: "\<not> is_transcribing (fst (transcribe_stream default_config ascii_strip
        example_backend example_recording))"
    using th by blast
  have b: "snd (transcribe_stream default_config ascii_strip example_backend example_recording)
           = None"
    using th by blast
  have c: "recording_lock (fst (transcribe_stream default_config ascii_strip
        example_backend example_recording)) =
      recording_lock (fst (try_block default_config ascii_strip example_backend ?s0))
      @ [Acquire, Write_is_transcribing False, Release]"
    using th by blast
  show ?thesis
    using n a b c by (simp add: l)
qed

section \<open>Properties of \<open>start_recording\<close>, \<open>stop_recording\<close> and the interim phrase\<close>

lemma interim_phrase_put_audio: "interim_phrase (put_audio item s) = interim_phrase s"
  by (simp add: put_audio_def)

lemma interim_phrase_stop_recording: "interim_phrase (stop_recording s) = interim_phrase s"
  by (simp add: stop_recording_def Let_def put_audio_def state_defs)

lemma interim_phrase_record_loop:
  "record_loop cfg s script = Some s' \<Longrightarrow> interim_phrase s' = interim_phrase s"
proof (induction script arbitrary: s)
  case Nil
  then show ?case
    by (simp split: if_splits)
next
  case (Cons step script)
  show ?case
  proof (cases "is_recording s")
    case False
    with Cons.prems show ?thesis
      by simp
  next
    case True
    show ?thesis
    proof (cases step)
      case (Frame data overflowed)
      with True Cons.prems Cons.IH show ?thesis
        by (cases overflowed)
           (force simp: interim_phrase_put_audio interim_phrase_logger interim_phrase_emit)+
    next
      case (Read_raises e)
      with True Cons.prems show ?thesis
        by (auto simp: interim_phrase_logger interim_phrase_emit)
    next
      case Stop_recording_called
      with True Cons.prems Cons.IH [of "stop_recording s"] show ?thesis
        by (simp add: interim_phrase_stop_recording)
    qed
  qed
qed

lemma interim_phrase_open_stream:
  "interim_phrase (fst (open_stream cfg mic s)) = interim_phrase s"
  by (simp add: open_stream_def Let_def state_defs split: option.splits)

lemma interim_phrase_close_stream: "interim_phrase (close_stream s) = interim_phrase s"
  by (simp add: close_stream_def emit_def split: option.splits)

lemma interim_phrase_start_recording:
  assumes "start_recording cfg mic s = Some s'"
  shows "interim_phrase s' = interim_phrase s"
proof (cases "is_recording s")
  case True
  with assms show ?thesis
    by (auto simp: start_recording_def Let_def state_defs)
next
  case False
  define s1 where
    "s1 = logger Info ''Initializing sounddevice for recording...''
            (release (set_is_recording True (acquire s)))"
  have i1: "interim_phrase s1 = interim_phrase s"
    by (simp add: s1_def state_defs)
  obtain s2 r where o: "open_stream cfg mic s1 = (s2, r)"
    by (cases "open_stream cfg mic s1")
  have i2: "interim_phrase s2 = interim_phrase s"
    using interim_phrase_open_stream [of cfg mic s1] o i1 by simp
  have n: "\<not> is_recording (acquire s)"
    using False by (simp add: acquire_def)
  have sr: "start_recording cfg mic s =
      (case open_stream cfg mic s1 of
         (s2, Some e) \<Rightarrow>
           Some (release (set_is_recording False (acquire
                   (logger Error
                      ''Make sure microphone is connected and selected in system, check permissions''
                      (logger Error (''Failed to open sounddevice stream: '' @ e) s2)))))
       | (s2, None) \<Rightarrow>
           (case record_loop cfg (logger Info ''Starting audio recording...'' s2) (reads mic) of
              None \<Rightarrow> None
            | Some s3 \<Rightarrow>
                Some (logger Info ''Recording stopped''
                        (release (set_is_recording False (acquire (close_stream s3)))))))"
    unfolding start_recording_def Let_def s1_def by (simp only: n if_False)
  show ?thesis
  proof (cases r)
    case (Some e)
    with assms o sr have "s' = release (set_is_recording False (acquire
        (logger Error
           ''Make sure microphone is connected and selected in system, check permissions''
           (logger Error (''Failed to open sounddevice stream: '' @ e) s2))))"
      by simp
    with i2 show ?thesis
      by (simp add: state_defs)
  next
    case None
    with assms o sr obtain s3 where
      l: "record_loop cfg (logger Info ''Starting audio recording...'' s2) (reads mic) = Some s3"
      and s': "s' = logger Info ''Recording stopped''
                      (release (set_is_recording False (acquire (close_stream s3))))"
      by (auto split: option.splits)
    from interim_phrase_record_loop [OF l] i2 have "interim_phrase s3 = interim_phrase s"
      by (simp add: interim_phrase_logger)
    then have "interim_phrase (close_stream s3) = interim_phrase s"
      by (simp add: interim_phrase_close_stream)
    then show ?thesis
      by (simp add: s' state_defs)
  qed
qed

lemma interim_phrase_for_responses:
  "interim_phrase (for_responses strip s rs) = interim_phrase s"
  by (simp add: for_responses_eq)

lemma interim_phrase_try_block:
  "interim_phrase (fst (try_block cfg strip env s)) = interim_phrase s"
  by (simp add: try_block_def get_google_credentials_def Let_def interim_phrase_for_responses
      state_defs split: option.splits)

lemma interim_phrase_except_block: "interim_phrase (except_block e s) = interim_phrase s"
  by (simp add: except_block_def Let_def state_defs)

lemma interim_phrase_transcribe_stream:
  "interim_phrase (fst (transcribe_stream cfg strip env s)) = interim_phrase s"
proof (cases "is_transcribing s")
  case True
  then show ?thesis
    by (simp add: transcribe_stream_refused state_defs)
next
  case False
  define s0 where "s0 = release (set_is_transcribing True (acquire s))"
  obtain s1 raised where t: "try_block cfg strip env s0 = (s1, raised)"
    by (cases "try_block cfg strip env s0")
  have "interim_phrase s0 = interim_phrase s"
    by (simp add: s0_def state_defs)
  then have "interim_phrase s1 = interim_phrase s"
    using interim_phrase_try_block [of cfg strip env s0] t by simp
  moreover have "transcribe_stream cfg strip env s =
      (finally_block (case raised of None \<Rightarrow> s1 | Some e \<Rightarrow> except_block e s1), None)"
    using False t unfolding s0_def by (rule transcribe_stream_accepted)
  ultimately show ?thesis
    by (simp add: finally_block_def state_defs interim_phrase_except_block split: option.splits)
qed

text \<open>
  Claim C8. A call of \<open>start_recording\<close> while \<open>is_recording\<close> is true returns at once: it
  writes one debug record, "Recording already in progress, ignoring start request", and
  changes nothing else, so no input device is opened. A call of \<open>stop_recording\<close> while
  \<open>is_recording\<close> is false writes one debug record and changes nothing else, so no sentinel
  is put on the audio queue; this is what a second \<open>stop_recording\<close> in a row always does.
\<close>

theorem start_stop_recording_idempotent:
  "(is_recording s \<longrightarrow>
      start_recording cfg mic s =
        Some (s\<lparr>recording_lock := recording_lock s @ [Acquire, Release],
                effects := effects s
                  @ [Log Debug ''Recording already in progress, ignoring start request'']\<rparr>))
   \<and> (\<not> is_recording s \<longrightarrow>
      stop_recording s =
        s\<lparr>recording_lock := recording_lock s @ [Acquire, Release],
          effects := effects s
             @ [Log Debug ''Recording not in progress, ignoring stop request'']\<rparr>
      \<and> audio_queue (stop_recording s) = audio_queue s)
   \<and> stop_recording (stop_recording s) =
       (stop_recording s)\<lparr>recording_lock := recording_lock (stop_recording s) @ [Acquire, Release],
          effects := effects (stop_recording s)
             @ [Log Debug ''Recording not in progress, ignoring stop request'']\<rparr>"
  by (simp add: start_recording_def stop_recording_def Let_def state_defs put_audio_def)

theorem start_stop_recording_idempotent_witness:
  "start_recording default_config example_microphone example_recording =
     Some \<lparr>audio_queue = [Some ''chunk1'', Some ''chunk2''], transcription_text_queue = [],
           recording_lock = [Acquire, Release],
           audio_stream = None, is_recording = True, is_transcribing = False,
           interim_phrase = None,
           effects = [Log Debug ''Recording already in progress, ignoring start request'']\<rparr>
   \<and> stop_recording init =
     \<lparr>audio_queue = [], transcription_text_queue = [], recording_lock = [Acquire, Release],
      audio_stream = None, is_recording = False, is_transcribing = False,
      interim_phrase = None,
      effects = [Log Debug ''Recording not in progress, ignoring stop request'']\<rparr>"
  using start_stop_recording_idempotent [of example_recording default_config example_microphone]
    start_stop_recording_idempotent [of init]
  by (simp add: example_recording_def init_def)

text \<open>
  Claim C9, as amended. The interim phrase is written by \<open>type_text\<close> only: it is the phrase
  after an accepted interim phrase, unchanged after a dropped one, and null after a final
  phrase. \<open>stop_recording\<close>, \<open>transcribe_stream\<close> and \<open>start_recording\<close> leave it as it is.
  The claim as stated, that it is null again once \<open>stop_recording\<close> has completed and the
  pipeline has stopped, fails: when the last phrase of a session is an accepted interim
  phrase, the interim phrase is still set after recording has stopped, the stream has ended
  and the text worker has taken the sentinel.
\<close>

theorem interim_phrase_set_by_type_text_only:
  "interim_phrase (type_text lower cfg s phrase) =
     (if is_final phrase then None
      else if accuracy phrase < accuracy_threshold (speech cfg) then interim_phrase s
      else Some phrase)
   \<and> interim_phrase (stop_recording s) = interim_phrase s
   \<and> interim_phrase (fst (transcribe_stream cfg strip env s)) = interim_phrase s
   \<and> (\<forall>s'. start_recording cfg mic s = Some s' \<longrightarrow> interim_phrase s' = interim_phrase s)"
  by (simp add: interim_phrase_type_text interim_phrase_stop_recording
      interim_phrase_transcribe_stream interim_phrase_start_recording)

theorem interim_phrase_set_by_type_text_only_witness:
  "interim_phrase
     (stop_recording
        (type_text ascii_lower default_config example_recording
           \<lparr>phrase_text = ''he'', accuracy = 8 / 10, is_final = False\<rparr>)) =
   Some \<lparr>phrase_text = ''he'', accuracy = 8 / 10, is_final = False\<rparr>
   \<and> (\<exists>s'. start_recording default_config example_microphone init = Some s'
          \<and> interim_phrase s' = interim_phrase init)"
proof -
  let ?p = "\<lparr>phrase_text = ''he'', accuracy = 8 / 10, is_final = False\<rparr>"
  let ?s = "type_text ascii_lower default_config example_recording ?p"
  have a: "interim_phrase (stop_recording ?s) = interim_phrase ?s"
    using interim_phrase_set_by_type_text_only [of ascii_lower default_config ?s ?p] by blast
  have b: "interim_phrase ?s = Some ?p"
    using interim_phrase_set_by_type_text_only [of ascii_lower default_config example_recording ?p]
    by (simp add: default_config_def binary64_values)
  have "start_recording default_config example_microphone init \<noteq> None"
    by (simp add: start_recording_def open_stream_def example_microphone_def init_def Let_def
        state_defs put_audio_def stop_recording_def)
  then obtain s' where c: "start_recording default_config example_microphone init = Some s'"
    by blast
  then have "interim_phrase s' = interim_phrase init"
    using interim_phrase_set_by_type_text_only [of ascii_lower default_config init ?p
        ascii_strip example_backend example_microphone]
    by blast
  with a b c show ?thesis
    by simp
qed

theorem interim_phrase_after_stop_counterexample:
  "text_input_worker ascii_lower default_config
     (put_phrase None
        (fst (transcribe_stream default_config ascii_strip interim_backend
                (stop_recording example_recording)))) =
   Some \<lparr>audio_queue = [], transcription_text_queue = [],
         recording_lock =
           [Acquire, Write_is_recording False, Release,
            Acquire, Write_is_transcribing True, Release,
            Acquire, Write_is_transcribing False, Release],
         audio_stream = None, is_recording = False, is_transcribing = False,
         interim_phrase =
           Some \<lparr>phrase_text = ''hello'', accuracy = 7475975381435023 / 9007199254740992,
                 is_final = False\<rparr>,
         effects =
           [Log Info ''Stop recording signal sent'',
            Log Info ''Loading credentials from: C:/TypeSpeech/credentials/google-credentials.json'',
            Log Info ''Starting streaming to Google Speech-to-Text API...'',
            Log Info ''Transcription stream completed'',
            Log_repr Debug
              \<lparr>phrase_text = ''hello'', accuracy = 7475975381435023 / 9007199254740992,
               is_final = False\<rparr>,
            Clipboard_copy ''hello '',
            Keybd_event 17 0, Keybd_event 86 0, Keybd_event 86 2, Keybd_event 17 2,
            Log Debug ''Pressed CTRL+V'']\<rparr>"
  by (simp add: text_input_worker_def put_phrase_def transcribe_stream_def try_block_def
      get_google_credentials_def finally_block_def stop_recording_def put_audio_def
      type_text_def pyperclip_copy_def press_ctrl_plus_def Let_def state_defs
      make_phrase_def py_round_examples interim_backend_def example_recording_def init_def
      default_config_def binary64_values ascii_strip_def ascii_isspace_def VK_CONTROL_def KEYEVENTF_KEYUP_def
      numeral_3_eq_3)

end
